theory Spec2Isabelle
  imports Main "HOL-Library.Word" "HOL-Library.Sublist"
begin

section \<open>JavaScript strings\<close>

text \<open>
  A JavaScript string is a sequence of UTF-16 code units; \<open>s.length\<close> counts code units
  and \<open>===\<close> compares them one by one. String literals of the source are written
  \<open>str ''...''\<close>. The empty string is the only falsy string, so \<open>!s\<close> is \<open>s = []\<close>.
\<close>

type_synonym jsstring = "16 word list"

definition str :: "string \<Rightarrow> jsstring" where
  "str s = map of_char s"

text \<open>\<open>s.startsWith(t)\<close>: the first \<open>t.length\<close> code units of \<open>s\<close> are \<open>t\<close>.\<close>

definition startsWith :: "jsstring \<Rightarrow> jsstring \<Rightarrow> bool" where
  "startsWith s t = (take (length t) s = t)"

text \<open>\<open>s.includes(t)\<close>: \<open>t\<close> occurs in \<open>s\<close> at some position, searched from the left.\<close>

primrec includes_str :: "jsstring \<Rightarrow> jsstring \<Rightarrow> bool" where
  "includes_str [] t = (t = [])"
| "includes_str (c # s) t = (startsWith (c # s) t \<or> includes_str s t)"

text \<open>\<open>a || b\<close> on strings: \<open>a\<close> unless it is falsy (empty or missing).\<close>

definition or_else :: "jsstring \<Rightarrow> jsstring \<Rightarrow> jsstring" where
  "or_else a b = (if a = [] then b else a)"

section \<open>Routes and the auth gateway\<close>

text \<open>The three paths the screens navigate to with \<open>router.replace\<close>.\<close>

datatype route =
    AuthLogin          \<comment> \<open>\<open>'/(auth)/login'\<close>\<close>
  | AuthProfileSetup   \<comment> \<open>\<open>'/(auth)/profile-setup'\<close>\<close>
  | Tabs               \<comment> \<open>\<open>'/(tabs)'\<close>\<close>

text \<open>
  The calls of \<open>useAuth()\<close> that the screens issue. The gateway itself is an external
  collaborator: the handlers receive it as a function from the call to what the awaited
  promise resolves to. \<open>ar_error = Some m\<close> is an error object whose \<open>message\<close> is
  \<open>m\<close> (a missing message is the empty string: both are falsy under \<open>||\<close>);
  \<open>ar_session\<close> tells whether the result carries a session.
\<close>

datatype auth_call =
    SignIn jsstring jsstring
  | SignUp jsstring jsstring
  | SignInWithGoogle
  | SignInWithPhone jsstring
  | VerifyOtp jsstring jsstring

record auth_result =
  ar_error :: "jsstring option"
  ar_session :: bool

type_synonym auth_gateway = "auth_call \<Rightarrow> auth_result"

datatype auth_mode = EmailMode | PhoneMode

section \<open>Login screen\<close>

record login_state =
  mode :: auth_mode
  email :: jsstring
  password :: jsstring
  phone :: jsstring
  otp :: jsstring
  otpSent :: bool
  error :: jsstring
  loading :: bool

text \<open>
  Every handler returns the view state it leaves behind, the gateway calls it issued, in
  order, and the route it navigated to, if any.
\<close>

definition handleEmailLogin ::
  "auth_gateway \<Rightarrow> login_state \<Rightarrow> login_state \<times> auth_call list \<times> route option" where
  "handleEmailLogin auth st =
     (if email st = [] \<or> password st = [] then
        (st\<lparr>error := str ''Please fill in all fields''\<rparr>, [], None)
      else
        let call = SignIn (email st) (password st) in
        (case ar_error (auth call) of
           Some m \<Rightarrow>
             (st\<lparr>error := or_else m (str ''Failed to sign in''), loading := False\<rparr>, [call], None)
         | None \<Rightarrow>
             (st\<lparr>error := [], loading := False\<rparr>, [call], Some Tabs)))"

definition login_handlePhoneSendOtp ::
  "auth_gateway \<Rightarrow> login_state \<Rightarrow> login_state \<times> auth_call list \<times> route option" where
  "login_handlePhoneSendOtp auth st =
     (if phone st = [] then
        (st\<lparr>error := str ''Please enter your phone number''\<rparr>, [], None)
      else if \<not> startsWith (phone st) (str ''+'') then
        (st\<lparr>error := str ''Phone number must include country code (e.g., +1234567890)''\<rparr>,
         [], None)
      else
        let call = SignInWithPhone (phone st) in
        (case ar_error (auth call) of
           Some m \<Rightarrow>
             (st\<lparr>error := or_else m (str ''Failed to send OTP''), loading := False\<rparr>, [call], None)
         | None \<Rightarrow>
             (st\<lparr>error := [], loading := False, otpSent := True\<rparr>, [call], None)))"

definition login_handlePhoneVerifyOtp ::
  "auth_gateway \<Rightarrow> login_state \<Rightarrow> login_state \<times> auth_call list \<times> route option" where
  "login_handlePhoneVerifyOtp auth st =
     (if otp st = [] then
        (st\<lparr>error := str ''Please enter the OTP''\<rparr>, [], None)
      else
        let call = VerifyOtp (phone st) (otp st); r = auth call in
        (case ar_error r of
           Some m \<Rightarrow>
             (st\<lparr>error := or_else m (str ''Failed to verify OTP''), loading := False\<rparr>,
              [call], None)
         | None \<Rightarrow>
             (st\<lparr>error := [], loading := False\<rparr>, [call],
              if ar_session r then Some Tabs else None)))"

section \<open>Signup screen\<close>

text \<open>The signup form has the fields of the login form and the confirmation field.\<close>

record signup_state = login_state +
  confirmPassword :: jsstring

definition handleEmailSignup ::
  "auth_gateway \<Rightarrow> signup_state \<Rightarrow> signup_state \<times> auth_call list \<times> route option" where
  "handleEmailSignup auth st =
     (if email st = [] \<or> password st = [] \<or> confirmPassword st = [] then
        (st\<lparr>error := str ''Please fill in all fields''\<rparr>, [], None)
      else if password st \<noteq> confirmPassword st then
        (st\<lparr>error := str ''Passwords do not match''\<rparr>, [], None)
      else if length (password st) < 6 then
        (st\<lparr>error := str ''Password must be at least 6 characters''\<rparr>, [], None)
      else
        let call = SignUp (email st) (password st) in
        (case ar_error (auth call) of
           Some m \<Rightarrow>
             (st\<lparr>error := or_else m (str ''Failed to create account''), loading := False\<rparr>,
              [call], None)
         | None \<Rightarrow>
             (st\<lparr>error := [], loading := False\<rparr>, [call], Some AuthProfileSetup)))"

definition signup_handlePhoneSendOtp ::
  "auth_gateway \<Rightarrow> signup_state \<Rightarrow> signup_state \<times> auth_call list \<times> route option" where
  "signup_handlePhoneSendOtp auth st =
     (if phone st = [] then
        (st\<lparr>error := str ''Please enter your phone number''\<rparr>, [], None)
      else if \<not> startsWith (phone st) (str ''+'') then
        (st\<lparr>error := str ''Phone number must include country code (e.g., +1234567890)''\<rparr>,
         [], None)
      else
        let call = SignInWithPhone (phone st) in
        (case ar_error (auth call) of
           Some m \<Rightarrow>
             (st\<lparr>error := or_else m (str ''Failed to send OTP''), loading := False\<rparr>, [call], None)
         | None \<Rightarrow>
             (st\<lparr>error := [], loading := False, otpSent := True\<rparr>, [call], None)))"

section \<open>Rows of the schema and the objects the screens hold\<close>

text \<open>
  Identifiers (\<open>uuid\<close>) and timestamps (\<open>timestamptz\<close>, \<open>toISOString()\<close>) reach the
  client as strings. A \<open>decimal(10,2)\<close> column is an integer number of hundredths, except
  \<open>total_amount\<close>, which the dashboard does arithmetic on: its type is left open.
\<close>

type_synonym uuid = jsstring
type_synonym timestamptz = jsstring

record user =
  user_id :: uuid
  user_email :: "jsstring option"

text \<open>\<open>interface SellerProfile\<close>, and the table \<open>sellers\<close>, which has these columns and more.\<close>

record SellerProfile =
  shop_name :: jsstring
  owner_name :: jsstring
  seller_phone :: jsstring
  seller_email :: jsstring
  address :: jsstring
  gst_number :: "jsstring option"
  is_verified :: bool

record seller_row = SellerProfile +
  seller_id :: uuid
  logo_url :: "jsstring option"
  banner_url :: "jsstring option"
  seller_created_at :: timestamptz
  seller_updated_at :: timestamptz

text \<open>
  The columns of \<open>master_products\<close> that the inventory screen joins in, the whole row, and
  the catalog's \<open>Product\<close>: the row spread into an object with \<open>is_added\<close>.
\<close>

record product_info =
  name :: jsstring
  brand :: jsstring
  category :: jsstring
  base_price :: int
  image_url :: "jsstring option"

record master_product_row = product_info +
  master_id :: uuid
  description :: "jsstring option"
  is_active :: bool
  master_created_at :: timestamptz

record Product = master_product_row +
  is_added :: bool

text \<open>
  \<open>seller_products\<close>: the column the dashboard selects, the three the inventory screen
  selects, its
  \<open>interface SellerProduct\<close> with the joined product, and the whole row.
\<close>

record stock_status_only =
  stock_status :: jsstring

record seller_product_core = stock_status_only +
  sp_id :: uuid
  product_id :: uuid

record SellerProduct = seller_product_core +
  product :: product_info

record seller_product_row = seller_product_core +
  sp_seller_id :: uuid
  custom_price :: "int option"
  added_at :: timestamptz

text \<open>
  \<open>orders\<close>: the two columns the dashboard selects, \<open>interface Order\<close> of the orders
  screen, and the whole row.
\<close>

record 'n order_totals =
  total_amount :: 'n
  status :: jsstring

record 'n Order = "'n order_totals" +
  order_id :: uuid
  buyer_name :: jsstring
  buyer_phone :: jsstring
  buyer_address :: jsstring
  created_at :: timestamptz

record 'n order_row = "'n Order" +
  order_seller_id :: uuid
  updated_at :: timestamptz

section \<open>The storage interface\<close>

text \<open>
  The mutations the screens send. Each is one call of the query builder: the payload of
  \<open>insert\<close> or \<open>update\<close>, and the value of the \<open>.eq('id', ...)\<close> filter.
\<close>

record seller_update =
  upd_shop_name :: jsstring
  upd_owner_name :: jsstring
  upd_phone :: jsstring
  upd_address :: jsstring
  upd_gst_number :: "jsstring option"

datatype db_request =
    InsertSellerProduct uuid uuid jsstring
      \<comment> \<open>\<open>seller_products.insert({seller_id, product_id, stock_status})\<close>\<close>
  | UpdateStockStatus jsstring uuid
      \<comment> \<open>\<open>seller_products.update({stock_status}).eq('id', id)\<close>\<close>
  | DeleteSellerProduct uuid
      \<comment> \<open>\<open>seller_products.delete().eq('id', id)\<close>\<close>
  | UpdateOrderStatus jsstring timestamptz uuid
      \<comment> \<open>\<open>orders.update({status, updated_at}).eq('id', id)\<close>\<close>
  | UpdateSeller seller_update uuid
      \<comment> \<open>\<open>sellers.update({shop_name, owner_name, phone, address, gst_number}).eq('id', id)\<close>\<close>

text \<open>
  What the client sees of a failed call is an \<open>error\<close> object; it never looks inside.
  The service is external: a handler receives it as a function from the request to the
  \<open>error\<close> of the response (\<open>None\<close>: the call succeeded).
\<close>

datatype db_error =
    PolicyViolation | CheckViolation | ForeignKeyViolation | UniqueViolation | Unavailable

type_synonym backend = "db_request \<Rightarrow> db_error option"

text \<open>An awaited promise either rejects (and the \<open>catch\<close> block runs) or resolves.\<close>

datatype 'a awaited = Rejected | Resolved 'a

section \<open>The tables and their constraints\<close>

record 'n database =
  sellers_table :: "seller_row list"
  master_products_table :: "master_product_row list"
  seller_products_table :: "seller_product_row list"
  orders_table :: "'n order_row list"

text \<open>\<open>CHECK (stock_status IN ('available', 'out_of_stock'))\<close>\<close>

definition stock_status_check :: "jsstring \<Rightarrow> bool" where
  "stock_status_check s = (s = str ''available'' \<or> s = str ''out_of_stock'')"

text \<open>\<open>CHECK (status IN ('confirmed', 'packed', 'shipped', 'delivered', 'cancelled'))\<close>\<close>

definition order_status_check :: "jsstring \<Rightarrow> bool" where
  "order_status_check s =
     (s = str ''confirmed'' \<or> s = str ''packed'' \<or> s = str ''shipped'' \<or>
      s = str ''delivered'' \<or> s = str ''cancelled'')"

text \<open>
  One statement run for the session identity \<open>uid\<close> (\<open>auth.uid()\<close>). An insert is
  refused by the policy's \<open>WITH CHECK\<close>, the \<open>CHECK\<close> constraint, the foreign keys, the
  primary key and \<open>UNIQUE(seller_id, product_id)\<close>; \<open>fresh\<close> is what
  \<open>gen_random_uuid()\<close> returns and \<open>now\<close> what \<open>now()\<close> returns. An update or delete
  touches the rows that the filter and the policy's \<open>USING\<close> both select, none of them
  if the new row of one would break a \<open>CHECK\<close>. A refused statement changes nothing.
\<close>

definition insert_seller_product ::
  "uuid \<Rightarrow> uuid \<Rightarrow> timestamptz \<Rightarrow> uuid \<Rightarrow> uuid \<Rightarrow> jsstring \<Rightarrow> 'n database \<Rightarrow>
   db_error + 'n database" where
  "insert_seller_product uid fresh now s p st db =
     (if uid \<noteq> s then Inl PolicyViolation
      else if \<not> stock_status_check st then Inl CheckViolation
      else if \<not> list_ex (\<lambda>r. seller_id r = s) (sellers_table db) \<or>
              \<not> list_ex (\<lambda>r. master_id r = p) (master_products_table db) then Inl ForeignKeyViolation
      else if list_ex (\<lambda>r. sp_id r = fresh \<or> (sp_seller_id r = s \<and> product_id r = p))
                (seller_products_table db) then Inl UniqueViolation
      else Inr (db\<lparr>seller_products_table := seller_products_table db @
                  [\<lparr>stock_status = st, sp_id = fresh, product_id = p, sp_seller_id = s,
                    custom_price = None, added_at = now\<rparr>]\<rparr>))"

definition update_stock_status ::
  "uuid \<Rightarrow> jsstring \<Rightarrow> uuid \<Rightarrow> 'n database \<Rightarrow> db_error + 'n database" where
  "update_stock_status uid st i db =
     (if list_ex (\<lambda>r. sp_id r = i \<and> sp_seller_id r = uid) (seller_products_table db) \<and>
         \<not> stock_status_check st then Inl CheckViolation
      else Inr (db\<lparr>seller_products_table :=
                  map (\<lambda>r. if sp_id r = i \<and> sp_seller_id r = uid then r\<lparr>stock_status := st\<rparr> else r)
                    (seller_products_table db)\<rparr>))"

definition delete_seller_product :: "uuid \<Rightarrow> uuid \<Rightarrow> 'n database \<Rightarrow> db_error + 'n database" where
  "delete_seller_product uid i db =
     Inr (db\<lparr>seller_products_table :=
            filter (\<lambda>r. \<not> (sp_id r = i \<and> sp_seller_id r = uid)) (seller_products_table db)\<rparr>)"

definition update_order_status ::
  "uuid \<Rightarrow> jsstring \<Rightarrow> timestamptz \<Rightarrow> uuid \<Rightarrow> 'n database \<Rightarrow> db_error + 'n database" where
  "update_order_status uid st t i db =
     (if list_ex (\<lambda>r. order_id r = i \<and> order_seller_id r = uid) (orders_table db) \<and>
         \<not> order_status_check st then Inl CheckViolation
      else Inr (db\<lparr>orders_table :=
                  map (\<lambda>r. if order_id r = i \<and> order_seller_id r = uid
                           then r\<lparr>status := st, updated_at := t\<rparr> else r)
                    (orders_table db)\<rparr>))"

text \<open>The columns an \<open>UpdateSeller\<close> payload names are set; the others keep their values.\<close>

definition set_seller_columns :: "seller_update \<Rightarrow> seller_row \<Rightarrow> seller_row" where
  "set_seller_columns u r =
     r\<lparr>shop_name := upd_shop_name u, owner_name := upd_owner_name u, seller_phone := upd_phone u,
       address := upd_address u, gst_number := upd_gst_number u\<rparr>"

definition update_seller ::
  "uuid \<Rightarrow> seller_update \<Rightarrow> uuid \<Rightarrow> 'n database \<Rightarrow> db_error + 'n database" where
  "update_seller uid u i db =
     Inr (db\<lparr>sellers_table :=
            map (\<lambda>r. if seller_id r = i \<and> seller_id r = uid then set_seller_columns u r else r)
              (sellers_table db)\<rparr>)"

fun execute ::
  "uuid \<Rightarrow> uuid \<Rightarrow> timestamptz \<Rightarrow> db_request \<Rightarrow> 'n database \<Rightarrow> db_error + 'n database" where
  "execute uid fresh now (InsertSellerProduct s p st) db = insert_seller_product uid fresh now s p st db"
| "execute uid fresh now (UpdateStockStatus st i) db = update_stock_status uid st i db"
| "execute uid fresh now (DeleteSellerProduct i) db = delete_seller_product uid i db"
| "execute uid fresh now (UpdateOrderStatus st t i) db = update_order_status uid st t i db"
| "execute uid fresh now (UpdateSeller u i) db = update_seller uid u i db"

text \<open>
  \<open>sellers.select('id').eq('id', i).maybeSingle()\<close>: the \<open>data\<close> of the response, the
  one visible row with that key or \<open>null\<close>.
\<close>

definition select_seller_id :: "uuid \<Rightarrow> uuid \<Rightarrow> 'n database \<Rightarrow> uuid option" where
  "select_seller_id uid i db =
     map_option seller_id (find (\<lambda>r. seller_id r = i \<and> seller_id r = uid) (sellers_table db))"

text \<open>The table state and the \<open>error\<close> that the client is handed after a statement.\<close>

definition state_after :: "'n database \<Rightarrow> db_error + 'n database \<Rightarrow> 'n database" where
  "state_after db r = (case r of Inl e \<Rightarrow> db | Inr db' \<Rightarrow> db')"

definition error_of :: "db_error + 'n database \<Rightarrow> db_error option" where
  "error_of r = (case r of Inl e \<Rightarrow> Some e | Inr db' \<Rightarrow> None)"

text \<open>Every row of \<open>seller_products\<close> satisfies the \<open>CHECK\<close> on \<open>stock_status\<close>.\<close>

definition stock_status_invariant :: "'n database \<Rightarrow> bool" where
  "stock_status_invariant db =
     list_all (\<lambda>r. stock_status_check (stock_status r)) (seller_products_table db)"

section \<open>Index screen: profile bootstrap\<close>

text \<open>
  \<open>checkProfile\<close> runs when the auth context has finished loading. \<open>data\<close> is the answer
  of the \<open>sellers\<close> lookup for the user's id.
\<close>

definition checkProfile :: "bool \<Rightarrow> user option \<Rightarrow> (uuid \<Rightarrow> uuid option) \<Rightarrow> route option" where
  "checkProfile auth_loading usr data =
     (if auth_loading then None
      else case usr of
        None \<Rightarrow> Some AuthLogin
      | Some u \<Rightarrow> (case data (user_id u) of Some row \<Rightarrow> Some Tabs | None \<Rightarrow> Some AuthProfileSetup))"

section \<open>Catalog screen\<close>

record catalog_state =
  catalog_products :: "Product list"
  catalog_loading :: bool
  catalog_refreshing :: bool
  searchQuery :: jsstring

definition addProduct ::
  "backend \<Rightarrow> user option \<Rightarrow> uuid \<Rightarrow> catalog_state \<Rightarrow> catalog_state \<times> db_request list" where
  "addProduct remote usr productId st =
     (case usr of
        None \<Rightarrow> (st, [])
      | Some u \<Rightarrow>
          let req = InsertSellerProduct (user_id u) productId (str ''available'') in
          (case remote req of
             None \<Rightarrow>
               (st\<lparr>catalog_products :=
                     map (\<lambda>p. if master_id p = productId then p\<lparr>is_added := True\<rparr> else p)
                       (catalog_products st)\<rparr>, [req])
           | Some e \<Rightarrow> (st, [req])))"

text \<open>
  The case mapping of \<open>toLowerCase\<close> is the JavaScript engine's, not the repository's:
  \<open>filteredProducts\<close> takes it as a parameter. \<open>ascii_toLowerCase\<close> is what it does on
  the letters \<open>A\<close> to \<open>Z\<close>.
\<close>

definition filteredProducts :: "(jsstring \<Rightarrow> jsstring) \<Rightarrow> catalog_state \<Rightarrow> Product list" where
  "filteredProducts toLowerCase st =
     filter (\<lambda>p. includes_str (toLowerCase (name p)) (toLowerCase (searchQuery st)) \<or>
                 includes_str (toLowerCase (brand p)) (toLowerCase (searchQuery st)) \<or>
                 includes_str (toLowerCase (category p)) (toLowerCase (searchQuery st)))
       (catalog_products st)"

definition ascii_toLowerCase :: "jsstring \<Rightarrow> jsstring" where
  "ascii_toLowerCase s = map (\<lambda>c. if 65 \<le> c \<and> c \<le> 90 then c + 32 else c) s"

section \<open>Inventory screen\<close>

record my_products_state =
  my_products :: "SellerProduct list"
  my_products_loading :: bool
  my_products_refreshing :: bool

text \<open>\<open>const newStatus = currentStatus === 'available' ? 'out_of_stock' : 'available'\<close>\<close>

definition toggle_newStatus :: "jsstring \<Rightarrow> jsstring" where
  "toggle_newStatus currentStatus =
     (if currentStatus = str ''available'' then str ''out_of_stock'' else str ''available'')"

definition toggleStock ::
  "backend \<Rightarrow> uuid \<Rightarrow> jsstring \<Rightarrow> my_products_state \<Rightarrow> my_products_state \<times> db_request list" where
  "toggleStock remote productId currentStatus st =
     (let req = UpdateStockStatus (toggle_newStatus currentStatus) productId in
      case remote req of
        None \<Rightarrow>
          (st\<lparr>my_products :=
                map (\<lambda>p. if sp_id p = productId then p\<lparr>stock_status := toggle_newStatus currentStatus\<rparr> else p)
                  (my_products st)\<rparr>, [req])
      | Some e \<Rightarrow> (st, [req]))"

definition removeProduct ::
  "backend \<Rightarrow> uuid \<Rightarrow> my_products_state \<Rightarrow> my_products_state \<times> db_request list" where
  "removeProduct remote productId st =
     (let req = DeleteSellerProduct productId in
      case remote req of
        None \<Rightarrow> (st\<lparr>my_products := filter (\<lambda>p. sp_id p \<noteq> productId) (my_products st)\<rparr>, [req])
      | Some e \<Rightarrow> (st, [req]))"

section \<open>Orders screen\<close>

record status_option =
  opt_value :: jsstring
  opt_label :: jsstring
  opt_color :: jsstring

definition STATUS_OPTIONS :: "status_option list" where
  "STATUS_OPTIONS =
     [\<lparr>opt_value = str ''confirmed'', opt_label = str ''Confirmed'', opt_color = str ''#3b82f6''\<rparr>,
      \<lparr>opt_value = str ''packed'', opt_label = str ''Packed'', opt_color = str ''#8b5cf6''\<rparr>,
      \<lparr>opt_value = str ''shipped'', opt_label = str ''Shipped'', opt_color = str ''#f59e0b''\<rparr>,
      \<lparr>opt_value = str ''delivered'', opt_label = str ''Delivered'', opt_color = str ''#10b981''\<rparr>,
      \<lparr>opt_value = str ''cancelled'', opt_label = str ''Cancelled'', opt_color = str ''#ef4444''\<rparr>]"

record 'n orders_state =
  orders :: "'n Order list"
  orders_loading :: bool
  orders_refreshing :: bool
  selectedOrder :: "'n Order option"
  modalVisible :: bool

text \<open>\<open>now\<close> is what \<open>new Date().toISOString()\<close> returns when the handler runs.\<close>

definition updateOrderStatus ::
  "backend \<Rightarrow> timestamptz \<Rightarrow> uuid \<Rightarrow> jsstring \<Rightarrow> 'n orders_state \<Rightarrow>
   'n orders_state \<times> db_request list" where
  "updateOrderStatus remote now orderId newStatus st =
     (let req = UpdateOrderStatus newStatus now orderId in
      case remote req of
        None \<Rightarrow>
          (st\<lparr>orders := map (\<lambda>ord. if order_id ord = orderId then ord\<lparr>status := newStatus\<rparr> else ord) (orders st),
              modalVisible := False\<rparr>, [req])
      | Some e \<Rightarrow> (st, [req]))"

text \<open>
  The detail view renders one button for each entry of \<open>STATUS_OPTIONS\<close>, whatever the
  status of the selected order; these are the arguments each button calls
  \<open>updateOrderStatus\<close> with.
\<close>

definition statusButtons :: "'n Order \<Rightarrow> (uuid \<times> jsstring) list" where
  "statusButtons sel = map (\<lambda>opt. (order_id sel, opt_value opt)) STATUS_OPTIONS"

section \<open>Profile screen\<close>

record profile_state =
  profile :: "SellerProfile option"
  profile_loading :: bool
  editing :: bool
  editedProfile :: "SellerProfile option"

definition handleSave ::
  "backend \<Rightarrow> user option \<Rightarrow> profile_state \<Rightarrow> profile_state \<times> db_request list" where
  "handleSave remote usr st =
     (case usr of
        None \<Rightarrow> (st, [])
      | Some u \<Rightarrow>
         (case editedProfile st of
            None \<Rightarrow> (st, [])
          | Some ed \<Rightarrow>
              let req = UpdateSeller
                          \<lparr>upd_shop_name = shop_name ed, upd_owner_name = owner_name ed,
                           upd_phone = seller_phone ed, upd_address = address ed,
                           upd_gst_number = gst_number ed\<rparr>
                          (user_id u) in
              (case remote req of
                 None \<Rightarrow> (st\<lparr>profile := Some ed, editing := False\<rparr>, [req])
               | Some e \<Rightarrow> (st, [req]))))"

section \<open>Dashboard\<close>

record 'n DashboardStats =
  totalProducts :: nat
  inStock :: nat
  outOfStock :: nat
  totalOrders :: nat
  revenue :: 'n

record 'n dashboard_state =
  stats :: "'n DashboardStats"
  dashboard_loading :: bool
  dashboard_refreshing :: bool

text \<open>
  \<open>loadStats\<close> awaits both selects together; \<open>data\<close> of either may be \<open>null\<close>. The
  revenue is accumulated with the \<open>+\<close> and \<open>0\<close> of JavaScript numbers, from the left;
  nothing is assumed of them here. \<open>parseFloat\<close> is the engine's.
\<close>

definition loadStats ::
  "('a \<Rightarrow> 'n::{zero,plus}) \<Rightarrow> user option \<Rightarrow>
   (stock_status_only list option \<times> 'a order_totals list option) awaited \<Rightarrow>
   'n dashboard_state \<Rightarrow> 'n dashboard_state" where
  "loadStats parseFloat usr res st =
     (case usr of
        None \<Rightarrow> st
      | Some u \<Rightarrow>
         (case res of
            Rejected \<Rightarrow> st\<lparr>dashboard_loading := False, dashboard_refreshing := False\<rparr>
          | Resolved (productsData, ordersData) \<Rightarrow>
              let products = (case productsData of None \<Rightarrow> [] | Some d \<Rightarrow> d);
                  ords = (case ordersData of None \<Rightarrow> [] | Some d \<Rightarrow> d)
              in st\<lparr>stats :=
                      \<lparr>totalProducts = length products,
                       inStock = length (filter (\<lambda>p. stock_status p = str ''available'') products),
                       outOfStock = length (filter (\<lambda>p. stock_status p = str ''out_of_stock'') products),
                       totalOrders = length ords,
                       revenue = foldl (\<lambda>sum ord. sum + parseFloat (total_amount ord)) 0
                                   (filter (\<lambda>ord. status ord = str ''delivered'') ords)\<rparr>,
                    dashboard_loading := False, dashboard_refreshing := False\<rparr>))"

section \<open>Example data\<close>

abbreviation example_login :: login_state where
  "example_login \<equiv>
     \<lparr>mode = EmailMode, email = str ''a@b.c'', password = str ''secret'', phone = str ''5551234'',
      otp = [], otpSent = False, error = [], loading = False\<rparr>"

abbreviation example_signup :: signup_state where
  "example_signup \<equiv>
     \<lparr>mode = EmailMode, email = str ''a@b.c'', password = str ''abc'', phone = str ''5551234'',
      otp = [], otpSent = False, error = [], loading = False, confirmPassword = str ''abc''\<rparr>"

abbreviation gateway_ok :: auth_gateway where
  "gateway_ok \<equiv> (\<lambda>c. \<lparr>ar_error = None, ar_session = True\<rparr>)"

abbreviation example_user :: user where
  "example_user \<equiv> \<lparr>user_id = str ''u1'', user_email = Some (str ''a@b.c'')\<rparr>"

abbreviation empty_database :: "int database" where
  "empty_database \<equiv>
     \<lparr>sellers_table = [], master_products_table = [], seller_products_table = [], orders_table = []\<rparr>"

abbreviation example_product :: SellerProduct where
  "example_product \<equiv>
     \<lparr>stock_status = str ''available'', sp_id = str ''sp1'', product_id = str ''p1'',
      product = \<lparr>name = str ''Yoga Mat'', brand = str ''FitLife'', category = str ''Sports & Fitness'',
                 base_price = 79900, image_url = None\<rparr>\<rparr>"

abbreviation example_inventory :: my_products_state where
  "example_inventory \<equiv>
     \<lparr>my_products = [example_product], my_products_loading = False, my_products_refreshing = False\<rparr>"

abbreviation example_order :: "int Order" where
  "example_order \<equiv>
     \<lparr>total_amount = 129900, status = str ''delivered'', order_id = str ''o1'',
      buyer_name = str ''Asha'', buyer_phone = str ''+911234567890'',
      buyer_address = str ''12 Lake Road'', created_at = str ''2025-10-04T16:33:57.000Z''\<rparr>"

abbreviation example_orders :: "int orders_state" where
  "example_orders \<equiv>
     \<lparr>orders = [example_order], orders_loading = False, orders_refreshing = False,
      selectedOrder = Some example_order, modalVisible = True\<rparr>"

abbreviation backend_down :: backend where
  "backend_down \<equiv> (\<lambda>q. Some Unavailable)"

abbreviation backend_ok :: backend where
  "backend_ok \<equiv> (\<lambda>q. None)"

abbreviation example_order_row :: "int order_row" where
  "example_order_row \<equiv>
     \<lparr>total_amount = 129900, status = str ''delivered'', order_id = str ''o1'',
      buyer_name = str ''Asha'', buyer_phone = str ''+911234567890'',
      buyer_address = str ''12 Lake Road'', created_at = str ''2025-10-04T16:33:57.000Z'',
      order_seller_id = str ''u1'', updated_at = str ''2025-10-04T16:33:57.000Z''\<rparr>"

abbreviation example_profile :: SellerProfile where
  "example_profile \<equiv>
     \<lparr>shop_name = str ''Lake Store'', owner_name = str ''Asha'', seller_phone = str ''+911234567890'',
      seller_email = str ''a@b.c'', address = str ''12 Lake Road'', gst_number = None,
      is_verified = True\<rparr>"

abbreviation example_seller_row :: seller_row where
  "example_seller_row \<equiv>
     \<lparr>shop_name = str ''Old Store'', owner_name = str ''Asha'', seller_phone = str ''+911234567890'',
      seller_email = str ''a@b.c'', address = str ''1 Hill Road'', gst_number = None,
      is_verified = True, seller_id = str ''u1'', logo_url = None, banner_url = None,
      seller_created_at = str ''2025-10-04T16:33:57.000Z'',
      seller_updated_at = str ''2025-10-04T16:33:57.000Z''\<rparr>"

abbreviation example_profile_state :: profile_state where
  "example_profile_state \<equiv>
     \<lparr>profile = Some (example_profile\<lparr>shop_name := str ''Old Store'', address := str ''1 Hill Road''\<rparr>),
      profile_loading = False, editing = True, editedProfile = Some example_profile\<rparr>"

abbreviation example_master_row :: master_product_row where
  "example_master_row \<equiv>
     \<lparr>name = str ''Yoga Mat'', brand = str ''FitLife'', category = str ''Sports & Fitness'',
      base_price = 79900, image_url = None, master_id = str ''p1'', description = None,
      is_active = True, master_created_at = str ''2025-10-04T16:33:57.000Z''\<rparr>"

abbreviation example_catalog_product :: Product where
  "example_catalog_product \<equiv>
     \<lparr>name = str ''Yoga Mat'', brand = str ''FitLife'', category = str ''Sports & Fitness'',
      base_price = 79900, image_url = None, master_id = str ''p1'', description = None,
      is_active = True, master_created_at = str ''2025-10-04T16:33:57.000Z'', is_added = False\<rparr>"

abbreviation example_catalog :: catalog_state where
  "example_catalog \<equiv>
     \<lparr>catalog_products = [example_catalog_product], catalog_loading = False,
      catalog_refreshing = False, searchQuery = []\<rparr>"

abbreviation example_seller_product_row :: seller_product_row where
  "example_seller_product_row \<equiv>
     \<lparr>stock_status = str ''available'', sp_id = str ''sp1'', product_id = str ''p1'',
      sp_seller_id = str ''u1'', custom_price = None, added_at = str ''2025-10-05T08:00:00.000Z''\<rparr>"

abbreviation example_database :: "int database" where
  "example_database \<equiv>
     \<lparr>sellers_table = [example_seller_row], master_products_table = [example_master_row],
      seller_products_table = [example_seller_product_row], orders_table = [example_order_row]\<rparr>"

abbreviation example_totals :: "int order_totals list" where
  "example_totals \<equiv>
     [\<lparr>total_amount = 129900, status = str ''delivered''\<rparr>,
      \<lparr>total_amount = 5000, status = str ''cancelled''\<rparr>,
      \<lparr>total_amount = 100, status = str ''delivered''\<rparr>,
      \<lparr>total_amount = 70, status = str ''shipped''\<rparr>]"

abbreviation example_dashboard :: "int dashboard_state" where
  "example_dashboard \<equiv>
     \<lparr>stats = \<lparr>totalProducts = 0, inStock = 0, outOfStock = 0, totalOrders = 0, revenue = 0\<rparr>,
      dashboard_loading = True, dashboard_refreshing = False\<rparr>"

section \<open>Strings\<close>

lemma str_nonempty: "str (c # cs) \<noteq> []"
  by (simp add: str_def)

lemma startsWith_plus: "startsWith s (str ''+'') \<longleftrightarrow> (\<exists>r. s = 43 # r)"
  by (cases s) (auto simp: startsWith_def str_def)

lemma available_neq_out_of_stock: "str ''available'' \<noteq> str ''out_of_stock''"
  by (simp add: str_def)

section \<open>Login without a seller profile\<close>

lemma handleEmailLogin_success:
  assumes "email st \<noteq> []" and "password st \<noteq> []"
    and "ar_error (auth (SignIn (email st) (password st))) = None"
  shows "snd (snd (handleEmailLogin auth st)) = Some Tabs"
  using assms by (simp add: handleEmailLogin_def)

lemma login_handlePhoneVerifyOtp_success:
  assumes "otp st \<noteq> []"
    and "auth (VerifyOtp (phone st) (otp st)) = \<lparr>ar_error = None, ar_session = True\<rparr>"
  shows "snd (snd (login_handlePhoneVerifyOtp auth st)) = Some Tabs"
  using assms by (simp add: login_handlePhoneVerifyOtp_def)

lemma checkProfile_no_row:
  "data (user_id u) = None \<Longrightarrow> checkProfile False (Some u) data = Some AuthProfileSetup"
  by (simp add: checkProfile_def)

text \<open>
  C1. A seller signs in with email and password, the gateway accepts, and the \<open>sellers\<close>
  table holds no row for the session identity. \<open>handleEmailLogin\<close> navigates to the main
  application (\<open>/(tabs)\<close>) without looking the row up, where \<open>checkProfile\<close> of the
  index screen, run for the same user on the same table, navigates to profile setup.
\<close>

theorem login_skips_profile_check:
  "handleEmailLogin gateway_ok example_login =
     (example_login, [SignIn (str ''a@b.c'') (str ''secret'')], Some Tabs) \<and>
   select_seller_id (user_id example_user) (user_id example_user) empty_database = None \<and>
   checkProfile False (Some example_user)
     (\<lambda>i. select_seller_id (user_id example_user) i empty_database) = Some AuthProfileSetup"
  by (simp add: handleEmailLogin_def checkProfile_def select_seller_id_def str_def)

section \<open>A failed mutation leaves the view state alone\<close>

lemma toggleStock_failed:
  "remote (UpdateStockStatus (toggle_newStatus cur) pid) \<noteq> None \<Longrightarrow>
   toggleStock remote pid cur st = (st, [UpdateStockStatus (toggle_newStatus cur) pid])"
  by (auto simp: toggleStock_def)

lemma removeProduct_failed:
  "remote (DeleteSellerProduct pid) \<noteq> None \<Longrightarrow>
   removeProduct remote pid st = (st, [DeleteSellerProduct pid])"
  by (auto simp: removeProduct_def)

lemma updateOrderStatus_failed:
  "remote (UpdateOrderStatus ns now oid) \<noteq> None \<Longrightarrow>
   updateOrderStatus remote now oid ns st = (st, [UpdateOrderStatus ns now oid])"
  by (auto simp: updateOrderStatus_def)

text \<open>
  C2. When the remote call of \<open>toggleStock\<close>, \<open>removeProduct\<close> or
  \<open>updateOrderStatus\<close> returns an error, the view state after the handler is the view
  state before it: the local list changes only when the call succeeds.
\<close>

theorem failed_mutation_keeps_view_state:
  "(remote (UpdateStockStatus (toggle_newStatus cur) pid) \<noteq> None \<longrightarrow>
      fst (toggleStock remote pid cur ps) = ps) \<and>
   (remote (DeleteSellerProduct pid) \<noteq> None \<longrightarrow>
      fst (removeProduct remote pid ps) = ps) \<and>
   (remote (UpdateOrderStatus ns now oid) \<noteq> None \<longrightarrow>
      fst (updateOrderStatus remote now oid ns ords) = ords)"
  by (simp add: toggleStock_failed removeProduct_failed updateOrderStatus_failed)

theorem failed_mutation_keeps_view_state_witness:
  "backend_down (UpdateStockStatus (toggle_newStatus (str ''available'')) (str ''sp1'')) \<noteq> None \<and>
   fst (toggleStock backend_down (str ''sp1'') (str ''available'') example_inventory) = example_inventory \<and>
   backend_down (DeleteSellerProduct (str ''sp1'')) \<noteq> None \<and>
   fst (removeProduct backend_down (str ''sp1'') example_inventory) = example_inventory \<and>
   backend_down (UpdateOrderStatus (str ''confirmed'') (str ''2025-10-05T08:00:00.000Z'') (str ''o1'')) \<noteq> None \<and>
   fst (updateOrderStatus backend_down (str ''2025-10-05T08:00:00.000Z'') (str ''o1'') (str ''confirmed'')
          example_orders) = example_orders"
  using failed_mutation_keeps_view_state
    [of backend_down "str ''available''" "str ''sp1''" example_inventory "str ''confirmed''"
        "str ''2025-10-05T08:00:00.000Z''" "str ''o1''" example_orders]
  by simp

section \<open>Order status updates\<close>

lemma status_targets:
  "map opt_value STATUS_OPTIONS =
     [str ''confirmed'', str ''packed'', str ''shipped'', str ''delivered'', str ''cancelled'']"
  by (simp add: STATUS_OPTIONS_def)

lemma status_target_check:
  "ns \<in> set (map opt_value STATUS_OPTIONS) \<longleftrightarrow> order_status_check ns"
  unfolding status_targets order_status_check_def by auto

lemma updateOrderStatus_request:
  "snd (updateOrderStatus remote now oid ns st) = [UpdateOrderStatus ns now oid]"
  by (simp add: updateOrderStatus_def Let_def split: option.split)

lemma updateOrderStatus_ok:
  "remote (UpdateOrderStatus ns now oid) = None \<Longrightarrow>
   fst (updateOrderStatus remote now oid ns st) =
     st\<lparr>orders := map (\<lambda>ord. if order_id ord = oid then ord\<lparr>status := ns\<rparr> else ord) (orders st),
        modalVisible := False\<rparr>"
  by (simp add: updateOrderStatus_def)

lemma update_order_status_accepted:
  "order_status_check ns \<Longrightarrow>
   update_order_status uid ns t i db =
     Inr (db\<lparr>orders_table :=
            map (\<lambda>r. if order_id r = i \<and> order_seller_id r = uid
                     then r\<lparr>status := ns, updated_at := t\<rparr> else r) (orders_table db)\<rparr>)"
  by (simp add: update_order_status_def)

lemma statusButtons_offer:
  "ns \<in> set (map opt_value STATUS_OPTIONS) \<Longrightarrow> (order_id sel, ns) \<in> set (statusButtons sel)"
  by (auto simp: statusButtons_def)

text \<open>
  C3. Whatever the current status of an order, the detail view offers each of the five
  targets of \<open>STATUS_OPTIONS\<close>; choosing one sends a single update carrying the new
  status and the timestamp taken when the handler runs; the \<open>orders\<close> table accepts it
  and stores both on the seller's row; and when the call succeeds every entry of the
  local list with that id shows the new status. No transition is excluded.
\<close>

theorem any_status_target_accepted:
  assumes "ns \<in> set (map opt_value STATUS_OPTIONS)"
  shows "(order_id sel, ns) \<in> set (statusButtons sel) \<and>
         snd (updateOrderStatus remote now oid ns st) = [UpdateOrderStatus ns now oid] \<and>
         execute uid fresh t (UpdateOrderStatus ns now oid) db =
           Inr (db\<lparr>orders_table :=
                  map (\<lambda>r. if order_id r = oid \<and> order_seller_id r = uid
                           then r\<lparr>status := ns, updated_at := now\<rparr> else r) (orders_table db)\<rparr>) \<and>
         (remote (UpdateOrderStatus ns now oid) = None \<longrightarrow>
            orders (fst (updateOrderStatus remote now oid ns st)) =
              map (\<lambda>ord. if order_id ord = oid then ord\<lparr>status := ns\<rparr> else ord) (orders st))"
proof -
  from assms have "order_status_check ns"
    by (simp only: status_target_check)
  then have "execute uid fresh t (UpdateOrderStatus ns now oid) db =
      Inr (db\<lparr>orders_table :=
             map (\<lambda>r. if order_id r = oid \<and> order_seller_id r = uid
                      then r\<lparr>status := ns, updated_at := now\<rparr> else r) (orders_table db)\<rparr>)"
    by (simp add: update_order_status_accepted)
  moreover have "remote (UpdateOrderStatus ns now oid) = None \<longrightarrow>
      orders (fst (updateOrderStatus remote now oid ns st)) =
        map (\<lambda>ord. if order_id ord = oid then ord\<lparr>status := ns\<rparr> else ord) (orders st)"
    by (simp add: updateOrderStatus_ok)
  ultimately show ?thesis
    using statusButtons_offer [OF assms, of sel] updateOrderStatus_request [of remote now oid ns st]
    by blast
qed

theorem any_status_target_accepted_witness:
  "str ''confirmed'' \<in> set (map opt_value STATUS_OPTIONS) \<and>
   (str ''o1'', str ''confirmed'') \<in> set (statusButtons example_order) \<and>
   snd (updateOrderStatus backend_ok (str ''2025-10-05T08:00:00.000Z'') (str ''o1'') (str ''confirmed'')
          example_orders) =
     [UpdateOrderStatus (str ''confirmed'') (str ''2025-10-05T08:00:00.000Z'') (str ''o1'')] \<and>
   execute (str ''u1'') (str ''x'') (str ''t'')
       (UpdateOrderStatus (str ''confirmed'') (str ''2025-10-05T08:00:00.000Z'') (str ''o1''))
       example_database =
     Inr (example_database\<lparr>orders_table :=
            [example_order_row\<lparr>status := str ''confirmed'',
                                updated_at := str ''2025-10-05T08:00:00.000Z''\<rparr>]\<rparr>) \<and>
   orders (fst (updateOrderStatus backend_ok (str ''2025-10-05T08:00:00.000Z'') (str ''o1'')
                  (str ''confirmed'') example_orders)) =
     [example_order\<lparr>status := str ''confirmed''\<rparr>]"
proof -
  have a: "str ''confirmed'' \<in> set (map opt_value STATUS_OPTIONS)"
    by (simp add: STATUS_OPTIONS_def)
  from a any_status_target_accepted
    [OF a, of example_order backend_ok "str ''2025-10-05T08:00:00.000Z''" "str ''o1''" example_orders
       "str ''u1''" "str ''x''" "str ''t''" example_database]
  show ?thesis by simp
qed

section \<open>Adding a catalog product\<close>

lemma addProduct_request:
  "snd (addProduct remote (Some u) pid st) = [InsertSellerProduct (user_id u) pid (str ''available'')]"
  by (simp add: addProduct_def Let_def split: option.split)

lemma addProduct_failed:
  "remote (InsertSellerProduct (user_id u) pid (str ''available'')) \<noteq> None \<Longrightarrow>
   fst (addProduct remote (Some u) pid st) = st"
  by (auto simp: addProduct_def)

lemma addProduct_ok:
  "remote (InsertSellerProduct (user_id u) pid (str ''available'')) = None \<Longrightarrow>
   fst (addProduct remote (Some u) pid st) =
     st\<lparr>catalog_products :=
          map (\<lambda>p. if master_id p = pid then p\<lparr>is_added := True\<rparr> else p) (catalog_products st)\<rparr>"
  by (simp add: addProduct_def)

lemma insert_seller_product_row:
  assumes "insert_seller_product uid fresh now s p st db = Inr db'"
  shows "db' = db\<lparr>seller_products_table := seller_products_table db @
                 [\<lparr>stock_status = st, sp_id = fresh, product_id = p, sp_seller_id = s,
                   custom_price = None, added_at = now\<rparr>]\<rparr>"
  using assms by (simp add: insert_seller_product_def split: if_splits)

lemma insert_duplicate_refused:
  assumes "list_ex (\<lambda>r. sp_seller_id r = s \<and> product_id r = p) (seller_products_table db)"
  shows "\<exists>e. insert_seller_product uid fresh now s p st db = Inl e"
proof -
  from assms have "list_ex (\<lambda>r. sp_id r = fresh \<or> (sp_seller_id r = s \<and> product_id r = p))
      (seller_products_table db)"
    by (auto simp: list_ex_iff)
  then show ?thesis
    by (simp add: insert_seller_product_def)
qed

text \<open>
  C4. For a signed-in seller, \<open>addProduct\<close> sends one insert into \<open>seller_products\<close>
  with \<open>stock_status\<close> \<open>'available'\<close>, and the row an accepted insert stores has that
  status. When the call returns an error the handler does nothing: the catalog screen
  has no message to set and the product is not marked as added. An insert for a
  (seller, product) pair the table already holds is refused, so it ends that way.
\<close>

theorem addProduct_available_and_silent:
  "snd (addProduct remote (Some u) pid st) = [InsertSellerProduct (user_id u) pid (str ''available'')] \<and>
   (execute (user_id u) fresh now (InsertSellerProduct (user_id u) pid (str ''available'')) db = Inr db' \<longrightarrow>
      seller_products_table db' = seller_products_table db @
        [\<lparr>stock_status = str ''available'', sp_id = fresh, product_id = pid,
          sp_seller_id = user_id u, custom_price = None, added_at = now\<rparr>]) \<and>
   (remote (InsertSellerProduct (user_id u) pid (str ''available'')) \<noteq> None \<longrightarrow>
      fst (addProduct remote (Some u) pid st) = st) \<and>
   (list_ex (\<lambda>r. sp_seller_id r = user_id u \<and> product_id r = pid) (seller_products_table dup) \<longrightarrow>
      (\<exists>e. execute (user_id u) fresh now (InsertSellerProduct (user_id u) pid (str ''available'')) dup = Inl e) \<and>
      fst (addProduct (\<lambda>q. error_of (execute (user_id u) fresh now q dup)) (Some u) pid st) = st)"
proof -
  have silent: "fst (addProduct (\<lambda>q. error_of (execute (user_id u) fresh now q dup)) (Some u) pid st) = st"
    if "list_ex (\<lambda>r. sp_seller_id r = user_id u \<and> product_id r = pid) (seller_products_table dup)"
  proof -
    from insert_duplicate_refused [OF that]
    obtain e where "insert_seller_product (user_id u) fresh now (user_id u) pid (str ''available'') dup = Inl e"
      by blast
    then have "error_of (execute (user_id u) fresh now
        (InsertSellerProduct (user_id u) pid (str ''available'')) dup) \<noteq> None"
      by (simp add: error_of_def)
    then show ?thesis
      by (rule addProduct_failed)
  qed
  have row: "seller_products_table db' = seller_products_table db @
        [\<lparr>stock_status = str ''available'', sp_id = fresh, product_id = pid,
          sp_seller_id = user_id u, custom_price = None, added_at = now\<rparr>]"
    if "execute (user_id u) fresh now (InsertSellerProduct (user_id u) pid (str ''available'')) db = Inr db'"
    using that insert_seller_product_row [of "user_id u" fresh now "user_id u" pid "str ''available''" db db']
    by simp
  show ?thesis
    using addProduct_request [of remote u pid st] addProduct_failed [of remote u pid st] silent row
      insert_duplicate_refused [of "user_id u" pid dup "user_id u" fresh now "str ''available''"]
    by simp
qed

theorem addProduct_available_and_silent_witness:
  "execute (str ''u1'') (str ''sp1'') (str ''2025-10-05T08:00:00.000Z'')
     (InsertSellerProduct (str ''u1'') (str ''p1'') (str ''available''))
     (example_database\<lparr>seller_products_table := []\<rparr>) = Inr example_database \<and>
   backend_down (InsertSellerProduct (str ''u1'') (str ''p1'') (str ''available'')) \<noteq> None \<and>
   fst (addProduct backend_down (Some example_user) (str ''p1'') example_catalog) = example_catalog \<and>
   list_ex (\<lambda>r. sp_seller_id r = str ''u1'' \<and> product_id r = str ''p1'')
     (seller_products_table example_database) \<and>
   execute (str ''u1'') (str ''sp2'') (str ''2025-10-05T08:00:01.000Z'')
     (InsertSellerProduct (str ''u1'') (str ''p1'') (str ''available'')) example_database =
     Inl UniqueViolation \<and>
   fst (addProduct (\<lambda>q. error_of (execute (str ''u1'') (str ''sp1'') (str ''2025-10-05T08:00:00.000Z'') q
                                    example_database))
          (Some example_user) (str ''p1'') example_catalog) = example_catalog"
proof -
  have a: "execute (str ''u1'') (str ''sp1'') (str ''2025-10-05T08:00:00.000Z'')
     (InsertSellerProduct (str ''u1'') (str ''p1'') (str ''available''))
     (example_database\<lparr>seller_products_table := []\<rparr>) = Inr example_database"
    by (simp add: insert_seller_product_def stock_status_check_def)
  have b: "backend_down (InsertSellerProduct (str ''u1'') (str ''p1'') (str ''available'')) \<noteq> None"
    by simp
  have c: "list_ex (\<lambda>r. sp_seller_id r = str ''u1'' \<and> product_id r = str ''p1'')
     (seller_products_table example_database)"
    by simp
  have d: "execute (str ''u1'') (str ''sp2'') (str ''2025-10-05T08:00:01.000Z'')
     (InsertSellerProduct (str ''u1'') (str ''p1'') (str ''available'')) example_database =
     Inl UniqueViolation"
    by (simp add: insert_seller_product_def stock_status_check_def)
  from a b c d addProduct_available_and_silent
    [of backend_down example_user "str ''p1''" example_catalog "str ''sp1''"
        "str ''2025-10-05T08:00:00.000Z''" "example_database\<lparr>seller_products_table := []\<rparr>"
        example_database example_database]
  show ?thesis by simp
qed

section \<open>Catalog search\<close>

lemma startsWith_prefix: "startsWith s t \<longleftrightarrow> prefix t s"
proof
  assume "startsWith s t"
  then have "s = t @ drop (length t) s"
    by (metis append_take_drop_id startsWith_def)
  then show "prefix t s"
    by (metis prefixI)
next
  assume "prefix t s"
  then obtain r where "s = t @ r"
    by (auto simp: prefix_def)
  then show "startsWith s t"
    by (simp add: startsWith_def)
qed

lemma includes_str_sublist: "includes_str s t \<longleftrightarrow> sublist t s"
proof (induction s)
  case Nil
  show ?case by simp
next
  case (Cons c s)
  then show ?case
    by (simp add: startsWith_prefix sublist_Cons_right)
qed

lemma includes_str_empty: "includes_str s []"
  by (simp add: includes_str_sublist)

text \<open>
  C5. \<open>filteredProducts\<close> keeps, in order, exactly the products for which the lowercased
  query is a contiguous substring of the lowercased name, brand or category. With the
  empty query (whose lowercasing is empty) the list is unchanged.
\<close>

theorem filteredProducts_substring:
  "filteredProducts toLowerCase st =
     filter (\<lambda>p. sublist (toLowerCase (searchQuery st)) (toLowerCase (name p)) \<or>
                 sublist (toLowerCase (searchQuery st)) (toLowerCase (brand p)) \<or>
                 sublist (toLowerCase (searchQuery st)) (toLowerCase (category p)))
       (catalog_products st) \<and>
   (toLowerCase [] = [] \<and> searchQuery st = [] \<longrightarrow>
      filteredProducts toLowerCase st = catalog_products st)"
  by (simp add: filteredProducts_def includes_str_sublist)

theorem filteredProducts_substring_witness:
  "ascii_toLowerCase [] = [] \<and> searchQuery example_catalog = [] \<and>
   filteredProducts ascii_toLowerCase example_catalog = [example_catalog_product] \<and>
   filteredProducts ascii_toLowerCase (example_catalog\<lparr>searchQuery := str ''FIT''\<rparr>) =
     [example_catalog_product] \<and>
   filteredProducts ascii_toLowerCase (example_catalog\<lparr>searchQuery := str ''tea''\<rparr>) = []"
proof -
  have a: "ascii_toLowerCase [] = []"
    by (simp add: ascii_toLowerCase_def)
  have b: "searchQuery example_catalog = []"
    by simp
  have c: "filteredProducts ascii_toLowerCase (example_catalog\<lparr>searchQuery := str ''FIT''\<rparr>) =
     [example_catalog_product]"
    by (simp add: filteredProducts_def ascii_toLowerCase_def str_def startsWith_def)
  have d: "filteredProducts ascii_toLowerCase (example_catalog\<lparr>searchQuery := str ''tea''\<rparr>) = []"
    by (simp add: filteredProducts_def ascii_toLowerCase_def str_def startsWith_def)
  from a b c d filteredProducts_substring [of ascii_toLowerCase example_catalog]
  show ?thesis by simp
qed

section \<open>Stock status\<close>

lemma toggle_newStatus_check: "stock_status_check (toggle_newStatus s)"
  by (simp add: toggle_newStatus_def stock_status_check_def)

lemma toggle_newStatus_twice: "stock_status_check s \<Longrightarrow> toggle_newStatus (toggle_newStatus s) = s"
  using available_neq_out_of_stock by (auto simp: toggle_newStatus_def stock_status_check_def)

lemma toggleStock_ok:
  "remote (UpdateStockStatus (toggle_newStatus cur) pid) = None \<Longrightarrow>
   toggleStock remote pid cur st =
     (st\<lparr>my_products := map (\<lambda>p. if sp_id p = pid then p\<lparr>stock_status := toggle_newStatus cur\<rparr> else p)
                          (my_products st)\<rparr>,
      [UpdateStockStatus (toggle_newStatus cur) pid])"
  by (simp add: toggleStock_def)

lemma toggle_rows_twice:
  assumes "stock_status_check s" and "\<forall>p \<in> set ps. sp_id p = pid \<longrightarrow> stock_status p = s"
  shows "map (\<lambda>p. if sp_id p = pid then p\<lparr>stock_status := toggle_newStatus (toggle_newStatus s)\<rparr> else p)
           (map (\<lambda>p. if sp_id p = pid then p\<lparr>stock_status := toggle_newStatus s\<rparr> else p) ps) = ps"
  using assms(2) by (induction ps) (auto simp: toggle_newStatus_twice [OF assms(1)])

lemma toggleStock_twice:
  assumes "stock_status_check s" and "\<forall>p \<in> set (my_products st). sp_id p = pid \<longrightarrow> stock_status p = s"
    and "\<forall>q. remote q = None"
  shows "fst (toggleStock remote pid (toggle_newStatus s) (fst (toggleStock remote pid s st))) = st"
  using assms(3) toggle_rows_twice [OF assms(1,2)] by (simp add: toggleStock_ok)

lemma insert_keeps_check:
  assumes "stock_status_invariant db" and "insert_seller_product uid fresh now s p st db = Inr db'"
  shows "stock_status_invariant db'"
  using assms by (auto simp: insert_seller_product_def stock_status_invariant_def split: if_splits)

lemma update_stock_keeps_check:
  assumes "stock_status_invariant db" and "update_stock_status uid st i db = Inr db'"
  shows "stock_status_invariant db'"
  using assms
  by (auto simp: update_stock_status_def stock_status_invariant_def list_all_iff list_ex_iff
      split: if_splits)

lemma delete_keeps_check:
  assumes "stock_status_invariant db" and "delete_seller_product uid i db = Inr db'"
  shows "stock_status_invariant db'"
  using assms by (auto simp: delete_seller_product_def stock_status_invariant_def list_all_iff)

lemma update_order_keeps_check:
  assumes "stock_status_invariant db" and "update_order_status uid st t i db = Inr db'"
  shows "stock_status_invariant db'"
  using assms by (auto simp: update_order_status_def stock_status_invariant_def split: if_splits)

lemma update_seller_keeps_check:
  assumes "stock_status_invariant db" and "update_seller uid u i db = Inr db'"
  shows "stock_status_invariant db'"
  using assms by (auto simp: update_seller_def stock_status_invariant_def)

lemma execute_keeps_check:
  assumes "stock_status_invariant db" and "execute uid fresh now q db = Inr db'"
  shows "stock_status_invariant db'"
  using assms
  by (cases q)
    (auto intro: insert_keeps_check update_stock_keeps_check delete_keeps_check
      update_order_keeps_check update_seller_keeps_check)

lemma toggleStock_request:
  "snd (toggleStock remote pid cur st) = [UpdateStockStatus (toggle_newStatus cur) pid]"
  by (simp add: toggleStock_def Let_def split: option.split)

lemma update_stock_status_accepted:
  "stock_status_check ns \<Longrightarrow>
   update_stock_status uid ns i db =
     Inr (db\<lparr>seller_products_table :=
            map (\<lambda>r. if sp_id r = i \<and> sp_seller_id r = uid then r\<lparr>stock_status := ns\<rparr> else r)
              (seller_products_table db)\<rparr>)"
  by (simp add: update_stock_status_def)

lemma execute_toggle_accepted:
  "execute uid fresh now (UpdateStockStatus (toggle_newStatus s) pid) db =
     Inr (db\<lparr>seller_products_table :=
            map (\<lambda>r. if sp_id r = pid \<and> sp_seller_id r = uid
                     then r\<lparr>stock_status := toggle_newStatus s\<rparr> else r)
              (seller_products_table db)\<rparr>)"
  by (simp add: update_stock_status_accepted toggle_newStatus_check)

lemma stored_rows_twice:
  assumes "stock_status_check s"
    and "\<forall>r \<in> set rows. sp_id r = pid \<and> sp_seller_id r = uid \<longrightarrow> stock_status r = s"
  shows "map (\<lambda>r. if sp_id r = pid \<and> sp_seller_id r = uid
                   then r\<lparr>stock_status := toggle_newStatus (toggle_newStatus s)\<rparr> else r)
           (map (\<lambda>r. if sp_id r = pid \<and> sp_seller_id r = uid
                     then r\<lparr>stock_status := toggle_newStatus s\<rparr> else r) rows) = rows"
  using assms(2) by (induction rows) (auto simp: toggle_newStatus_twice [OF assms(1)])

lemma execute_toggle_twice:
  assumes "stock_status_check s"
    and "\<forall>r \<in> set (seller_products_table db). sp_id r = pid \<and> sp_seller_id r = uid \<longrightarrow> stock_status r = s"
  shows "execute uid fresh' now' (UpdateStockStatus (toggle_newStatus (toggle_newStatus s)) pid)
           (state_after db (execute uid fresh now (UpdateStockStatus (toggle_newStatus s) pid) db)) =
         Inr db"
proof -
  let ?f = "\<lambda>r. if sp_id r = pid \<and> sp_seller_id r = uid
                 then r\<lparr>stock_status := toggle_newStatus s\<rparr> else r"
  let ?g = "\<lambda>r. if sp_id r = pid \<and> sp_seller_id r = uid
                 then r\<lparr>stock_status := toggle_newStatus (toggle_newStatus s)\<rparr> else r"
  let ?mid = "db\<lparr>seller_products_table := map ?f (seller_products_table db)\<rparr>"
  have mid: "state_after db (execute uid fresh now (UpdateStockStatus (toggle_newStatus s) pid) db) = ?mid"
    by (simp only: execute_toggle_accepted state_after_def sum.case)
  have "execute uid fresh' now' (UpdateStockStatus (toggle_newStatus (toggle_newStatus s)) pid) ?mid =
        Inr (?mid\<lparr>seller_products_table := map ?g (seller_products_table ?mid)\<rparr>)"
    by (rule execute_toggle_accepted)
  also have "seller_products_table ?mid = map ?f (seller_products_table db)"
    by simp
  also have "map ?g (map ?f (seller_products_table db)) = seller_products_table db"
    by (rule stored_rows_twice [OF assms])
  also have "?mid\<lparr>seller_products_table := seller_products_table db\<rparr> = db"
    by simp
  finally show ?thesis
    by (simp only: mid)
qed

lemma toggleStock_against_table:
  "toggleStock (\<lambda>q. error_of (execute uid fresh now q db)) pid s st =
     (st\<lparr>my_products := map (\<lambda>p. if sp_id p = pid then p\<lparr>stock_status := toggle_newStatus s\<rparr> else p)
                          (my_products st)\<rparr>,
      [UpdateStockStatus (toggle_newStatus s) pid])"
proof -
  have "error_of (execute uid fresh now (UpdateStockStatus (toggle_newStatus s) pid) db) = None"
    unfolding execute_toggle_accepted by (simp add: error_of_def)
  then show ?thesis
    by (rule toggleStock_ok)
qed

text \<open>
  C6. The status \<open>toggleStock\<close> computes is always \<open>'available'\<close> or
  \<open>'out_of_stock'\<close>; it maps each of the two to the other, so toggling twice from
  either gives the starting value back, in the function and in the local list after
  two successful calls. In the table, every statement the storage accepts keeps all
  rows of \<open>seller_products\<close> within the two values. The handler sends one update
  carrying the toggled status for the row's id; the table always accepts it and stores
  the toggled status on the seller's row; a successful call puts the toggled status on
  the local rows with that id; and the update sent by a second toggle brings the
  stored rows back to what they were.
\<close>

theorem stock_toggle_involution:
  "stock_status_check (toggle_newStatus s) \<and>
   toggle_newStatus (str ''available'') = str ''out_of_stock'' \<and>
   toggle_newStatus (str ''out_of_stock'') = str ''available'' \<and>
   (stock_status_check s \<longrightarrow> toggle_newStatus (toggle_newStatus s) = s) \<and>
   (stock_status_check s \<and> (\<forall>p \<in> set (my_products st). sp_id p = pid \<longrightarrow> stock_status p = s) \<longrightarrow>
      fst (toggleStock backend_ok pid (toggle_newStatus s) (fst (toggleStock backend_ok pid s st))) = st) \<and>
   (stock_status_invariant db \<and> execute uid fresh now q db = Inr db' \<longrightarrow> stock_status_invariant db') \<and>
   snd (toggleStock remote pid s st) = [UpdateStockStatus (toggle_newStatus s) pid] \<and>
   (remote (UpdateStockStatus (toggle_newStatus s) pid) = None \<longrightarrow>
      my_products (fst (toggleStock remote pid s st)) =
        map (\<lambda>p. if sp_id p = pid then p\<lparr>stock_status := toggle_newStatus s\<rparr> else p) (my_products st)) \<and>
   execute uid fresh now (UpdateStockStatus (toggle_newStatus s) pid) db =
     Inr (db\<lparr>seller_products_table :=
            map (\<lambda>r. if sp_id r = pid \<and> sp_seller_id r = uid
                     then r\<lparr>stock_status := toggle_newStatus s\<rparr> else r)
              (seller_products_table db)\<rparr>) \<and>
   toggleStock (\<lambda>q. error_of (execute uid fresh now q db)) pid s st =
     (st\<lparr>my_products := map (\<lambda>p. if sp_id p = pid then p\<lparr>stock_status := toggle_newStatus s\<rparr> else p)
                          (my_products st)\<rparr>,
      [UpdateStockStatus (toggle_newStatus s) pid]) \<and>
   (stock_status_check s \<and>
    (\<forall>r \<in> set (seller_products_table db). sp_id r = pid \<and> sp_seller_id r = uid \<longrightarrow> stock_status r = s) \<longrightarrow>
      execute uid fresh now (UpdateStockStatus (toggle_newStatus (toggle_newStatus s)) pid)
        (state_after db (execute uid fresh now (UpdateStockStatus (toggle_newStatus s) pid) db)) =
      Inr db)"
proof -
  have "toggle_newStatus (str ''available'') = str ''out_of_stock''"
    by (simp add: toggle_newStatus_def)
  moreover have "toggle_newStatus (str ''out_of_stock'') = str ''available''"
    using available_neq_out_of_stock by (simp add: toggle_newStatus_def)
  moreover have "remote (UpdateStockStatus (toggle_newStatus s) pid) = None \<longrightarrow>
      my_products (fst (toggleStock remote pid s st)) =
        map (\<lambda>p. if sp_id p = pid then p\<lparr>stock_status := toggle_newStatus s\<rparr> else p) (my_products st)"
    by (simp add: toggleStock_ok)
  ultimately show ?thesis
    using toggle_newStatus_check toggle_newStatus_twice toggleStock_twice [of s st pid backend_ok]
      execute_keeps_check [of db uid fresh now q db'] toggleStock_request [of remote pid s st]
      execute_toggle_accepted [of uid fresh now s pid db]
      toggleStock_against_table [of uid fresh now db pid s st]
      execute_toggle_twice [of s db pid uid fresh now fresh now]
    by blast
qed

theorem stock_toggle_involution_witness:
  "stock_status_check (str ''available'') \<and>
   map stock_status (filter (\<lambda>p. sp_id p = str ''sp1'') (my_products example_inventory)) =
     [str ''available''] \<and>
   stock_status_invariant example_database \<and>
   execute (str ''u1'') (str ''x'') (str ''t'') (UpdateStockStatus (str ''out_of_stock'') (str ''sp1''))
     example_database =
     Inr (example_database\<lparr>seller_products_table :=
            [example_seller_product_row\<lparr>stock_status := str ''out_of_stock''\<rparr>]\<rparr>) \<and>
   toggle_newStatus (toggle_newStatus (str ''available'')) = str ''available'' \<and>
   fst (toggleStock backend_ok (str ''sp1'') (toggle_newStatus (str ''available''))
          (fst (toggleStock backend_ok (str ''sp1'') (str ''available'') example_inventory))) =
     example_inventory \<and>
   stock_status_invariant
     (example_database\<lparr>seller_products_table :=
        [example_seller_product_row\<lparr>stock_status := str ''out_of_stock''\<rparr>]\<rparr>) \<and>
   backend_ok (UpdateStockStatus (toggle_newStatus (str ''available'')) (str ''sp1'')) = None \<and>
   toggleStock backend_ok (str ''sp1'') (str ''available'') example_inventory =
     (example_inventory\<lparr>my_products := [example_product\<lparr>stock_status := str ''out_of_stock''\<rparr>]\<rparr>,
      [UpdateStockStatus (str ''out_of_stock'') (str ''sp1'')]) \<and>
   toggleStock (\<lambda>q. error_of (execute (str ''u1'') (str ''x'') (str ''t'') q example_database))
       (str ''sp1'') (str ''available'') example_inventory =
     (example_inventory\<lparr>my_products := [example_product\<lparr>stock_status := str ''out_of_stock''\<rparr>]\<rparr>,
      [UpdateStockStatus (str ''out_of_stock'') (str ''sp1'')]) \<and>
   map stock_status (filter (\<lambda>r. sp_id r = str ''sp1'' \<and> sp_seller_id r = str ''u1'')
                       (seller_products_table example_database)) = [str ''available''] \<and>
   execute (str ''u1'') (str ''x'') (str ''t'') (UpdateStockStatus (str ''available'') (str ''sp1''))
     (example_database\<lparr>seller_products_table :=
        [example_seller_product_row\<lparr>stock_status := str ''out_of_stock''\<rparr>]\<rparr>) =
     Inr example_database"
proof -
  have a: "stock_status_check (str ''available'')"
    by (simp add: stock_status_check_def)
  have b: "\<forall>p \<in> set (my_products example_inventory).
      sp_id p = str ''sp1'' \<longrightarrow> stock_status p = str ''available''"
    by simp
  have c: "stock_status_invariant example_database"
    by (simp add: stock_status_invariant_def stock_status_check_def)
  have d: "execute (str ''u1'') (str ''x'') (str ''t'')
      (UpdateStockStatus (str ''out_of_stock'') (str ''sp1'')) example_database =
     Inr (example_database\<lparr>seller_products_table :=
            [example_seller_product_row\<lparr>stock_status := str ''out_of_stock''\<rparr>]\<rparr>)"
    by (simp add: update_stock_status_def stock_status_check_def)
  have e: "map stock_status (filter (\<lambda>p. sp_id p = str ''sp1'') (my_products example_inventory)) =
     [str ''available'']"
    by simp
  have f: "\<forall>r \<in> set (seller_products_table example_database).
      sp_id r = str ''sp1'' \<and> sp_seller_id r = str ''u1'' \<longrightarrow> stock_status r = str ''available''"
    by simp
  have g: "map stock_status (filter (\<lambda>r. sp_id r = str ''sp1'' \<and> sp_seller_id r = str ''u1'')
                       (seller_products_table example_database)) = [str ''available'']"
    by simp
  have h: "toggle_newStatus (str ''available'') = str ''out_of_stock''"
    by (simp add: toggle_newStatus_def)
  have i: "toggle_newStatus (str ''out_of_stock'') = str ''available''"
    using available_neq_out_of_stock by (simp add: toggle_newStatus_def)
  have j: "backend_ok (UpdateStockStatus (toggle_newStatus (str ''available'')) (str ''sp1'')) = None"
    by simp
  note th = stock_toggle_involution
    [of "str ''available''" example_inventory "str ''sp1''" example_database "str ''u1''" "str ''x''"
        "str ''t''" "UpdateStockStatus (str ''out_of_stock'') (str ''sp1'')"
        "example_database\<lparr>seller_products_table :=
            [example_seller_product_row\<lparr>stock_status := str ''out_of_stock''\<rparr>]\<rparr>" backend_ok]
  have k: "toggleStock backend_ok (str ''sp1'') (str ''available'') example_inventory =
     (example_inventory\<lparr>my_products := [example_product\<lparr>stock_status := str ''out_of_stock''\<rparr>]\<rparr>,
      [UpdateStockStatus (str ''out_of_stock'') (str ''sp1'')])"
    by (simp add: toggleStock_def h)
  have l: "toggleStock (\<lambda>q. error_of (execute (str ''u1'') (str ''x'') (str ''t'') q example_database))
       (str ''sp1'') (str ''available'') example_inventory =
     (example_inventory\<lparr>my_products := [example_product\<lparr>stock_status := str ''out_of_stock''\<rparr>]\<rparr>,
      [UpdateStockStatus (str ''out_of_stock'') (str ''sp1'')])"
    using th by (simp add: h)
  have rt: "execute (str ''u1'') (str ''x'') (str ''t'')
       (UpdateStockStatus (toggle_newStatus (toggle_newStatus (str ''available''))) (str ''sp1''))
       (state_after example_database
          (execute (str ''u1'') (str ''x'') (str ''t'')
             (UpdateStockStatus (toggle_newStatus (str ''available'')) (str ''sp1'')) example_database)) =
     Inr example_database"
    using th a f by blast
  have m: "execute (str ''u1'') (str ''x'') (str ''t'') (UpdateStockStatus (str ''available'') (str ''sp1''))
     (example_database\<lparr>seller_products_table :=
        [example_seller_product_row\<lparr>stock_status := str ''out_of_stock''\<rparr>]\<rparr>) =
     Inr example_database"
    using rt by (simp only: h i d state_after_def sum.case)
  from a b c d e g j k l m th show ?thesis by blast
qed

section \<open>Signup validation\<close>

text \<open>
  C7. An email signup whose password has fewer than 6 code units, or differs from the
  confirmation field, is rejected in the handler: a validation message is set, nothing
  else of the form changes, no call reaches the auth gateway (so no session can come
  back) and nothing is navigated to.
\<close>

theorem signup_validation_blocks_call:
  assumes "length (password st) < 6 \<or> password st \<noteq> confirmPassword st"
  shows "\<exists>msg. msg \<noteq> [] \<and> handleEmailSignup auth st = (st\<lparr>error := msg\<rparr>, [], None)"
proof -
  consider (empty) "email st = [] \<or> password st = [] \<or> confirmPassword st = []"
    | (mismatch) "\<not> (email st = [] \<or> password st = [] \<or> confirmPassword st = [])"
        "password st \<noteq> confirmPassword st"
    | (short) "\<not> (email st = [] \<or> password st = [] \<or> confirmPassword st = [])"
        "password st = confirmPassword st" "length (password st) < 6"
    using assms by blast
  then show ?thesis
  proof cases
    case empty
    then have "handleEmailSignup auth st = (st\<lparr>error := str ''Please fill in all fields''\<rparr>, [], None)"
      by (simp add: handleEmailSignup_def)
    then show ?thesis using str_nonempty by blast
  next
    case mismatch
    then have "handleEmailSignup auth st = (st\<lparr>error := str ''Passwords do not match''\<rparr>, [], None)"
      by (simp add: handleEmailSignup_def)
    then show ?thesis using str_nonempty by blast
  next
    case short
    then have "handleEmailSignup auth st =
        (st\<lparr>error := str ''Password must be at least 6 characters''\<rparr>, [], None)"
      by (simp add: handleEmailSignup_def)
    then show ?thesis using str_nonempty by blast
  qed
qed

theorem signup_validation_blocks_call_witness:
  "length (password example_signup) < 6 \<and>
   (\<exists>msg. msg \<noteq> [] \<and>
      handleEmailSignup gateway_ok example_signup = (example_signup\<lparr>error := msg\<rparr>, [], None))"
proof -
  have a: "length (password example_signup) < 6"
    by (simp add: str_def)
  then have b: "length (password example_signup) < 6 \<or>
           password example_signup \<noteq> confirmPassword example_signup"
    by blast
  from a signup_validation_blocks_call [OF b, of gateway_ok] show ?thesis
    by blast
qed

section \<open>Phone numbers without a country code\<close>

lemma login_send_otp_rejects:
  assumes "\<not> startsWith (phone st) (str ''+'')"
  shows "\<exists>msg. msg \<noteq> [] \<and> login_handlePhoneSendOtp auth st = (st\<lparr>error := msg\<rparr>, [], None)"
proof (cases "phone st = []")
  case True
  then have "login_handlePhoneSendOtp auth st =
      (st\<lparr>error := str ''Please enter your phone number''\<rparr>, [], None)"
    by (simp add: login_handlePhoneSendOtp_def)
  then show ?thesis using str_nonempty by blast
next
  case False
  with assms have "login_handlePhoneSendOtp auth st =
      (st\<lparr>error := str ''Phone number must include country code (e.g., +1234567890)''\<rparr>, [], None)"
    by (simp add: login_handlePhoneSendOtp_def)
  then show ?thesis using str_nonempty by blast
qed

lemma signup_send_otp_rejects:
  assumes "\<not> startsWith (phone st) (str ''+'')"
  shows "\<exists>msg. msg \<noteq> [] \<and> signup_handlePhoneSendOtp auth st = (st\<lparr>error := msg\<rparr>, [], None)"
proof (cases "phone st = []")
  case True
  then have "signup_handlePhoneSendOtp auth st =
      (st\<lparr>error := str ''Please enter your phone number''\<rparr>, [], None)"
    by (simp add: signup_handlePhoneSendOtp_def)
  then show ?thesis using str_nonempty by blast
next
  case False
  with assms have "signup_handlePhoneSendOtp auth st =
      (st\<lparr>error := str ''Phone number must include country code (e.g., +1234567890)''\<rparr>, [], None)"
    by (simp add: signup_handlePhoneSendOtp_def)
  then show ?thesis using str_nonempty by blast
qed

text \<open>
  C8. On the login screen and on the signup screen, \<open>handlePhoneSendOtp\<close> with a phone
  number that does not start with \<open>+\<close> (the empty number too) sets a validation message
  and returns: no call reaches the auth gateway, so no one-time code is requested, and
  \<open>otpSent\<close> stays as it was.
\<close>

theorem phone_without_plus_rejected:
  assumes "\<not> startsWith (phone l) (str ''+'')" and "\<not> startsWith (phone s) (str ''+'')"
  shows "(\<exists>msg. msg \<noteq> [] \<and> login_handlePhoneSendOtp auth l = (l\<lparr>error := msg\<rparr>, [], None)) \<and>
         (\<exists>msg. msg \<noteq> [] \<and> signup_handlePhoneSendOtp auth' s = (s\<lparr>error := msg\<rparr>, [], None))"
  using assms login_send_otp_rejects signup_send_otp_rejects by blast

theorem phone_without_plus_rejected_witness:
  "\<not> startsWith (phone example_login) (str ''+'') \<and>
   \<not> startsWith (phone example_signup) (str ''+'') \<and>
   (\<exists>msg. msg \<noteq> [] \<and>
      login_handlePhoneSendOtp gateway_ok example_login = (example_login\<lparr>error := msg\<rparr>, [], None)) \<and>
   (\<exists>msg. msg \<noteq> [] \<and>
      signup_handlePhoneSendOtp gateway_ok example_signup = (example_signup\<lparr>error := msg\<rparr>, [], None))"
proof -
  have a: "\<not> startsWith (phone example_login) (str ''+'')"
    by (simp add: startsWith_def str_def)
  have b: "\<not> startsWith (phone example_signup) (str ''+'')"
    by (simp add: startsWith_def str_def)
  from a b phone_without_plus_rejected [OF a b, of gateway_ok gateway_ok] show ?thesis
    by blast
qed

section \<open>Saving the profile\<close>

lemma handleSave_request:
  "editedProfile st = Some ed \<Longrightarrow>
   snd (handleSave remote (Some u) st) =
     [UpdateSeller \<lparr>upd_shop_name = shop_name ed, upd_owner_name = owner_name ed,
                    upd_phone = seller_phone ed, upd_address = address ed,
                    upd_gst_number = gst_number ed\<rparr> (user_id u)]"
  by (simp add: handleSave_def Let_def split: option.split)

lemma handleSave_ok:
  "editedProfile st = Some ed \<Longrightarrow>
   remote (UpdateSeller \<lparr>upd_shop_name = shop_name ed, upd_owner_name = owner_name ed,
                        upd_phone = seller_phone ed, upd_address = address ed,
                        upd_gst_number = gst_number ed\<rparr> (user_id u)) = None \<Longrightarrow>
   fst (handleSave remote (Some u) st) = st\<lparr>profile := Some ed, editing := False\<rparr>"
  by (simp add: handleSave_def)

lemma handleSave_failed:
  "editedProfile st = Some ed \<Longrightarrow>
   remote (UpdateSeller \<lparr>upd_shop_name = shop_name ed, upd_owner_name = owner_name ed,
                        upd_phone = seller_phone ed, upd_address = address ed,
                        upd_gst_number = gst_number ed\<rparr> (user_id u)) \<noteq> None \<Longrightarrow>
   fst (handleSave remote (Some u) st) = st"
  by (auto simp: handleSave_def)

lemma update_seller_own_row:
  "update_seller uid p uid db =
     Inr (db\<lparr>sellers_table :=
            map (\<lambda>r. if seller_id r = uid then set_seller_columns p r else r) (sellers_table db)\<rparr>)"
  by (simp add: update_seller_def cong: if_cong)

lemma set_seller_columns_frame:
  "seller_email (set_seller_columns p r) = seller_email r \<and>
   is_verified (set_seller_columns p r) = is_verified r \<and>
   seller_id (set_seller_columns p r) = seller_id r \<and>
   logo_url (set_seller_columns p r) = logo_url r \<and>
   banner_url (set_seller_columns p r) = banner_url r \<and>
   seller_created_at (set_seller_columns p r) = seller_created_at r \<and>
   seller_updated_at (set_seller_columns p r) = seller_updated_at r"
  by (simp add: set_seller_columns_def)

text \<open>
  C9. \<open>handleSave\<close> sends one update of \<open>sellers\<close>, filtered by the caller's id, whose
  payload is the shop name, owner name, phone, address and tax id of the edited profile.
  The table sets these five columns on the caller's row and leaves every other row
  alone; setting them changes neither the email nor the verified flag, nor the id, the
  logo and banner references or the timestamps.
\<close>

theorem handleSave_updates_five_fields:
  assumes "editedProfile st = Some ed"
  shows
    "snd (handleSave remote (Some u) st) =
       [UpdateSeller \<lparr>upd_shop_name = shop_name ed, upd_owner_name = owner_name ed,
                      upd_phone = seller_phone ed, upd_address = address ed,
                      upd_gst_number = gst_number ed\<rparr> (user_id u)] \<and>
     execute (user_id u) fresh now
       (UpdateSeller \<lparr>upd_shop_name = shop_name ed, upd_owner_name = owner_name ed,
                      upd_phone = seller_phone ed, upd_address = address ed,
                      upd_gst_number = gst_number ed\<rparr> (user_id u)) db =
       Inr (db\<lparr>sellers_table :=
              map (\<lambda>r. if seller_id r = user_id u
                       then r\<lparr>shop_name := shop_name ed, owner_name := owner_name ed,
                              seller_phone := seller_phone ed, address := address ed,
                              gst_number := gst_number ed\<rparr>
                       else r) (sellers_table db)\<rparr>) \<and>
     seller_email (set_seller_columns p r) = seller_email r \<and>
     is_verified (set_seller_columns p r) = is_verified r \<and>
     seller_id (set_seller_columns p r) = seller_id r \<and>
     logo_url (set_seller_columns p r) = logo_url r \<and>
     banner_url (set_seller_columns p r) = banner_url r \<and>
     seller_created_at (set_seller_columns p r) = seller_created_at r \<and>
     seller_updated_at (set_seller_columns p r) = seller_updated_at r \<and>
     fst (handleSave remote (Some u) st) \<in> {st, st\<lparr>profile := Some ed, editing := False\<rparr>}"
proof -
  have "fst (handleSave remote (Some u) st) \<in> {st, st\<lparr>profile := Some ed, editing := False\<rparr>}"
    using handleSave_ok [OF assms, of remote u] handleSave_failed [OF assms, of remote u]
    by blast
  then show ?thesis
    using handleSave_request [OF assms, of remote u] set_seller_columns_frame [of p r]
    by (simp add: update_seller_own_row set_seller_columns_def)
qed

theorem handleSave_updates_five_fields_witness:
  "editedProfile example_profile_state = Some example_profile \<and>
   snd (handleSave backend_ok (Some example_user) example_profile_state) =
     [UpdateSeller \<lparr>upd_shop_name = str ''Lake Store'', upd_owner_name = str ''Asha'',
                    upd_phone = str ''+911234567890'', upd_address = str ''12 Lake Road'',
                    upd_gst_number = None\<rparr> (str ''u1'')] \<and>
   execute (str ''u1'') (str ''x'') (str ''t'')
     (UpdateSeller \<lparr>upd_shop_name = str ''Lake Store'', upd_owner_name = str ''Asha'',
                    upd_phone = str ''+911234567890'', upd_address = str ''12 Lake Road'',
                    upd_gst_number = None\<rparr> (str ''u1''))
     example_database =
     Inr (example_database\<lparr>sellers_table :=
            [example_seller_row\<lparr>shop_name := str ''Lake Store'', address := str ''12 Lake Road''\<rparr>]\<rparr>)"
proof -
  have a: "editedProfile example_profile_state = Some example_profile"
    by simp
  from a handleSave_updates_five_fields
    [OF a, of backend_ok example_user "str ''x''" "str ''t''"
       example_database]
  show ?thesis by simp
qed

section \<open>Dashboard revenue\<close>

lemma loadStats_revenue:
  "revenue (stats (loadStats parseFloat (Some u) (Resolved (pd, Some ords)) st)) =
     foldl (\<lambda>sum ord. sum + parseFloat (total_amount ord)) 0
       (filter (\<lambda>ord. status ord = str ''delivered'') ords)"
  by (simp add: loadStats_def Let_def)

lemma foldl_plus_sum_list:
  fixes a :: "'m::monoid_add"
  shows "foldl (\<lambda>sum x. sum + f x) a xs = a + sum_list (map f xs)"
  by (induction xs arbitrary: a) (simp_all add: add.assoc)

text \<open>
  C10. The revenue \<open>loadStats\<close> stores is the left-to-right sum, from \<open>0\<close>, of
  \<open>parseFloat(total_amount)\<close> over the orders whose status is \<open>'delivered'\<close>, in the
  order of the list. An order in any other status contributes nothing: putting it into
  the list, or taking it out, leaves the figure as it is. Where addition is exact the
  figure is the sum of the delivered amounts.
\<close>

theorem revenue_counts_delivered_only:
  fixes parseFloat :: "'a \<Rightarrow> 'n::{zero,plus}" and exact :: "'a \<Rightarrow> int"
  shows
    "revenue (stats (loadStats parseFloat (Some u) (Resolved (pd, Some ords)) st)) =
       foldl (\<lambda>sum x. sum + x) 0
         (map (\<lambda>ord. parseFloat (total_amount ord))
            (filter (\<lambda>ord. status ord = str ''delivered'') ords)) \<and>
     (status x \<noteq> str ''delivered'' \<longrightarrow>
        revenue (stats (loadStats parseFloat (Some u) (Resolved (pd, Some (before @ x # after))) st)) =
        revenue (stats (loadStats parseFloat (Some u) (Resolved (pd, Some (before @ after))) st))) \<and>
     revenue (stats (loadStats exact (Some u) (Resolved (pd, Some ords)) st')) =
       sum_list (map (\<lambda>ord. exact (total_amount ord))
                   (filter (\<lambda>ord. status ord = str ''delivered'') ords))"
proof -
  have "revenue (stats (loadStats exact (Some u) (Resolved (pd, Some ords)) st')) =
       sum_list (map (\<lambda>ord. exact (total_amount ord))
                   (filter (\<lambda>ord. status ord = str ''delivered'') ords))"
    unfolding loadStats_revenue by (simp add: foldl_plus_sum_list)
  moreover have "status x \<noteq> str ''delivered'' \<longrightarrow>
        revenue (stats (loadStats parseFloat (Some u) (Resolved (pd, Some (before @ x # after))) st)) =
        revenue (stats (loadStats parseFloat (Some u) (Resolved (pd, Some (before @ after))) st))"
    unfolding loadStats_revenue by simp
  moreover have "revenue (stats (loadStats parseFloat (Some u) (Resolved (pd, Some ords)) st)) =
       foldl (\<lambda>sum x. sum + x) 0
         (map (\<lambda>ord. parseFloat (total_amount ord))
            (filter (\<lambda>ord. status ord = str ''delivered'') ords))"
    unfolding loadStats_revenue by (simp add: foldl_map)
  ultimately show ?thesis by blast
qed

theorem revenue_counts_delivered_only_witness:
  "status \<lparr>total_amount = 5000 :: int, status = str ''cancelled''\<rparr> \<noteq> str ''delivered'' \<and>
   revenue (stats (loadStats id (Some example_user) (Resolved (None, Some example_totals))
                     example_dashboard)) = 130000 \<and>
   revenue (stats (loadStats id (Some example_user)
                     (Resolved (None, Some ([] @ \<lparr>total_amount = 5000, status = str ''cancelled''\<rparr> # example_totals)))
                     example_dashboard)) = 130000"
proof -
  have a: "status \<lparr>total_amount = 5000 :: int, status = str ''cancelled''\<rparr> \<noteq> str ''delivered''"
    by (simp add: str_def)
  from a revenue_counts_delivered_only
    [of id example_user None example_totals example_dashboard
        "\<lparr>total_amount = 5000, status = str ''cancelled''\<rparr>" "[]" example_totals
        id example_dashboard]
  show ?thesis by (simp add: str_def)
qed

end
